theory Spec2Isabelle
  imports Main
begin

section \<open>Strings and byte literals\<close>

text \<open>
  Go strings are byte sequences; the Portuguese literals of \<^verbatim>\<open>main.go\<close> are UTF-8, so
  every accented letter is two bytes. They are written out here byte by byte.
\<close>

definition c_cedilla :: string where
  "c_cedilla = [CHR 0xC3, CHR 0xA7]"

definition a_tilde :: string where
  "a_tilde = [CHR 0xC3, CHR 0xA3]"

definition a_acute :: string where
  "a_acute = [CHR 0xC3, CHR 0xA1]"

definition e_acute :: string where
  "e_acute = [CHR 0xC3, CHR 0xA9]"

text \<open>\<^verbatim>\<open>strings.HasPrefix\<close> and \<^verbatim>\<open>strings.TrimPrefix\<close> of the Go standard library.\<close>

definition HasPrefix :: "string \<Rightarrow> string \<Rightarrow> bool" where
  "HasPrefix s pre = (length pre \<le> length s \<and> take (length pre) s = pre)"

definition TrimPrefix :: "string \<Rightarrow> string \<Rightarrow> string" where
  "TrimPrefix s pre = (if HasPrefix s pre then drop (length pre) s else s)"

section \<open>The request context\<close>

text \<open>\<^verbatim>\<open>type Article struct\<close> (main.go, line 18).\<close>

record Article =
  ID :: string
  Title :: string
  Content :: string

text \<open>
  What \<^verbatim>\<open>c.JSON\<close> is given to serialise: a \<^verbatim>\<open>gin.H\<close> object (here always with string
  values) or an \<^verbatim>\<open>Article\<close>.
\<close>

datatype Body = H "(string \<times> string) list" | ArticleBody Article

text \<open>
  The part of \<^verbatim>\<open>*gin.Context\<close> that the two handlers read and write: the request
  headers (\<^verbatim>\<open>http.Header\<close>, a map from canonical header names to the list of values
  received), the path parameters, the per-request key/value store, the responses rendered
  so far (status code and body, in order), and whether the chain was aborted. The
  methods of the context are modelled by what they do to these fields.
\<close>

record Context =
  Request_Header :: "string \<rightharpoonup> string list"
  Params :: "(string \<times> string) list"
  Keys :: "string \<rightharpoonup> string"
  Writer :: "(nat \<times> Body) list"
  aborted :: bool

definition StatusOK :: nat where
  "StatusOK = 200"

definition StatusUnauthorized :: nat where
  "StatusUnauthorized = 401"

definition StatusNotFound :: nat where
  "StatusNotFound = 404"

text \<open>
  \<^verbatim>\<open>c.GetHeader(key)\<close>: the first value stored for the header, the empty string when the
  header is absent or has no value. (The key used, \<^verbatim>\<open>Authorization\<close>, is already in
  canonical form.)
\<close>

definition GetHeader :: "Context \<Rightarrow> string \<Rightarrow> string" where
  "GetHeader c key = (case Request_Header c key of None \<Rightarrow> [] | Some [] \<Rightarrow> [] | Some (v # _) \<Rightarrow> v)"

text \<open>\<^verbatim>\<open>c.Param(key)\<close>: the value of the first path parameter of that name, else empty.\<close>

definition Param :: "Context \<Rightarrow> string \<Rightarrow> string" where
  "Param c key = (case map_of (Params c) key of None \<Rightarrow> [] | Some v \<Rightarrow> v)"

text \<open>\<^verbatim>\<open>c.JSON(code, obj)\<close>, \<^verbatim>\<open>c.Abort()\<close> and \<^verbatim>\<open>c.Set(key, value)\<close>.\<close>

definition JSON :: "nat \<Rightarrow> Body \<Rightarrow> Context \<Rightarrow> Context" where
  "JSON code obj c = c\<lparr>Writer := Writer c @ [(code, obj)]\<rparr>"

definition Abort :: "Context \<Rightarrow> Context" where
  "Abort c = c\<lparr>aborted := True\<rparr>"

definition Set_key :: "string \<Rightarrow> string \<Rightarrow> Context \<Rightarrow> Context" where
  "Set_key key v c = c\<lparr>Keys := (Keys c)(key \<mapsto> v)\<rparr>"

section \<open>The article handler\<close>

definition article_1 :: Article where
  "article_1 = \<lparr>ID = ''1'', Title = ''Aprendendo Go e Swagger'',
     Content = ''A integra'' @ c_cedilla @ a_tilde @ ''o '' @ e_acute
       @ '' mais simples do que parece!''\<rparr>"

definition msg_not_found :: string where
  "msg_not_found = ''Artigo n'' @ a_tilde @ ''o encontrado''"

text \<open>\<^verbatim>\<open>func GetArticleByID(c *gin.Context)\<close> (main.go, lines 133 to 148).\<close>

definition GetArticleByID :: "Context \<Rightarrow> Context" where
  "GetArticleByID c =
     (let id = Param c ''id'' in
      if id = ''1'' then JSON StatusOK (ArticleBody article_1) c
      else JSON StatusNotFound (H [(''error'', msg_not_found)]) c)"

section \<open>The token library, as the middleware uses it\<close>

text \<open>
  \<^verbatim>\<open>jwt.ParseWithClaims\<close> belongs to the imported package
  \<^verbatim>\<open>github.com/golang-jwt/jwt/v5\<close>, whose source is not part of the repository. The
  specification's step 3 gives its contract: the string is parsed as a signed token (three
  dot-separated segments: header, claims, signature), the signing algorithm named in the
  header is looked up and offered to the caller's key function, the signature is verified
  with the key that function returns, and the temporal claims (expiry, not-before) must be
  satisfied when present; every failure is reported as an error. The definitions of this
  section follow that contract. What the contract leaves to cryptography and to the wire
  format is a parameter, \<open>Codec\<close>: the base64url decoder, the two JSON decoders and the
  keyed hash.
\<close>

datatype Hash = SHA256 | SHA384 | SHA512

datatype SigningMethod =
    SigningMethodHMAC Hash
  | SigningMethodRSA Hash
  | SigningMethodRSAPSS Hash
  | SigningMethodECDSA Hash
  | SigningMethodEd25519
  | SigningMethodNone

text \<open>
  Modelled from the spec: the package's registry of algorithm names, which is not under
  \<^verbatim>\<open>src/\<close>. The symmetric HMAC family is \<open>HS256\<close>, \<open>HS384\<close> and \<open>HS512\<close>; the
  other registered names are the asymmetric families and \<open>none\<close>.
\<close>

definition GetSigningMethod :: "string \<Rightarrow> SigningMethod option" where
  "GetSigningMethod alg =
     (if alg = ''HS256'' then Some (SigningMethodHMAC SHA256)
      else if alg = ''HS384'' then Some (SigningMethodHMAC SHA384)
      else if alg = ''HS512'' then Some (SigningMethodHMAC SHA512)
      else if alg = ''RS256'' then Some (SigningMethodRSA SHA256)
      else if alg = ''RS384'' then Some (SigningMethodRSA SHA384)
      else if alg = ''RS512'' then Some (SigningMethodRSA SHA512)
      else if alg = ''PS256'' then Some (SigningMethodRSAPSS SHA256)
      else if alg = ''PS384'' then Some (SigningMethodRSAPSS SHA384)
      else if alg = ''PS512'' then Some (SigningMethodRSAPSS SHA512)
      else if alg = ''ES256'' then Some (SigningMethodECDSA SHA256)
      else if alg = ''ES384'' then Some (SigningMethodECDSA SHA384)
      else if alg = ''ES512'' then Some (SigningMethodECDSA SHA512)
      else if alg = ''EdDSA'' then Some SigningMethodEd25519
      else if alg = ''none'' then Some SigningMethodNone
      else None)"

text \<open>
  \<^verbatim>\<open>type Claims struct\<close> (main.go, line 28): the user name and the embedded registered
  claims. Instants are integers (a count of time units since the epoch); an absent
  registered claim is \<open>None\<close>.
\<close>

record Claims =
  Username :: string
  Issuer :: string
  Subject :: string
  Audience :: "string list"
  ExpiresAt :: "int option"
  NotBefore :: "int option"
  IssuedAt :: "int option"
  ID_jti :: string

record Token =
  Raw :: string
  Method :: SigningMethod
  Header :: "string \<rightharpoonup> string"
  TClaims :: Claims
  Signature :: string
  Valid :: bool

datatype claim_error = ErrTokenExpired | ErrTokenNotValidYet

datatype jwt_error =
    ErrTokenMalformed
  | ErrTokenUnverifiable "string option"
  | ErrTokenSignatureInvalid
  | ErrTokenInvalidClaims "claim_error list"

text \<open>
  The parameters: \<open>DecodeSegment\<close> decodes one base64url segment, \<open>UnmarshalHeader\<close>
  reads the header object (its string-valued members), \<open>UnmarshalClaims\<close> reads the
  claims object into the \<open>Claims\<close> structure, and \<open>HMAC\<close> is the keyed hash (hash
  function, key, message).
\<close>

record Codec =
  DecodeSegment :: "string \<Rightarrow> string option"
  UnmarshalHeader :: "string \<Rightarrow> (string \<rightharpoonup> string) option"
  UnmarshalClaims :: "string \<Rightarrow> Claims option"
  HMAC :: "Hash \<Rightarrow> string \<Rightarrow> string \<Rightarrow> string"

text \<open>\<^verbatim>\<open>strings.Split(s, sep)\<close> for a one-byte separator.\<close>

fun Split :: "string \<Rightarrow> char \<Rightarrow> string list" where
  "Split [] sep = [[]]"
| "Split (x # xs) sep =
     (if x = sep then [] # Split xs sep
      else (case Split xs sep of [] \<Rightarrow> [[x]] | p # ps \<Rightarrow> (x # p) # ps))"

text \<open>
  Modelled from the spec: the structural half of the package's parser, which is not under
  \<^verbatim>\<open>src/\<close>. It asks for exactly three segments, a decodable header and claims object,
  and an algorithm name that the registry knows.
\<close>

definition ParseUnverified :: "Codec \<Rightarrow> string \<Rightarrow> jwt_error + (Token \<times> string list)" where
  "ParseUnverified env tokenString =
     (case Split tokenString (CHR ''.'') of
        [h, p, s] \<Rightarrow>
          (case DecodeSegment env h of
             None \<Rightarrow> Inl ErrTokenMalformed
           | Some headerBytes \<Rightarrow>
          (case UnmarshalHeader env headerBytes of
             None \<Rightarrow> Inl ErrTokenMalformed
           | Some hdr \<Rightarrow>
          (case DecodeSegment env p of
             None \<Rightarrow> Inl ErrTokenMalformed
           | Some claimBytes \<Rightarrow>
          (case UnmarshalClaims env claimBytes of
             None \<Rightarrow> Inl ErrTokenMalformed
           | Some cl \<Rightarrow>
          (case hdr ''alg'' of
             None \<Rightarrow> Inl (ErrTokenUnverifiable None)
           | Some alg \<Rightarrow>
          (case GetSigningMethod alg of
             None \<Rightarrow> Inl (ErrTokenUnverifiable None)
           | Some m \<Rightarrow>
               Inr (\<lparr>Raw = tokenString, Method = m, Header = hdr, TClaims = cl,
                      Signature = [], Valid = False\<rparr>, [h, p, s])))))))
      | _ \<Rightarrow> Inl ErrTokenMalformed)"

text \<open>
  Modelled from the spec: the package's signature check, which is not under \<^verbatim>\<open>src/\<close>,
  for a key that is a byte slice. An HMAC method recomputes the keyed hash of the signing
  string under the key and compares; every other method refuses a byte-slice key.
\<close>

definition Verify :: "Codec \<Rightarrow> SigningMethod \<Rightarrow> string \<Rightarrow> string \<Rightarrow> string \<Rightarrow> bool" where
  "Verify env m signingString sig key =
     (case m of SigningMethodHMAC h \<Rightarrow> sig = HMAC env h key signingString | _ \<Rightarrow> False)"

text \<open>
  Modelled from the spec: the package's validation of the temporal claims, which is not
  under \<^verbatim>\<open>src/\<close>, at the instant \<open>now\<close>. An expiry, when present, must lie after
  \<open>now\<close>; a not-before instant, when present, must not lie after \<open>now\<close>.
\<close>

definition Validate :: "int \<Rightarrow> Claims \<Rightarrow> claim_error list" where
  "Validate now cl =
     (case ExpiresAt cl of None \<Rightarrow> [] | Some e \<Rightarrow> if now < e then [] else [ErrTokenExpired])
     @ (case NotBefore cl of None \<Rightarrow> [] | Some n \<Rightarrow> if now < n then [ErrTokenNotValidYet] else [])"

text \<open>
  Modelled from the spec: \<^verbatim>\<open>jwt.ParseWithClaims\<close>, which is not under \<^verbatim>\<open>src/\<close>. The
  token is parsed, its signature segment decoded, the key function asked for the key, the
  signature checked and the claims validated; the first failure is the error returned, and
  only a token that passed everything is marked valid.
\<close>

definition ParseWithClaims ::
  "Codec \<Rightarrow> int \<Rightarrow> string \<Rightarrow> (Token \<Rightarrow> string + string) \<Rightarrow> jwt_error + Token" where
  "ParseWithClaims env now tokenString keyFunc =
     (case ParseUnverified env tokenString of
        Inl err \<Rightarrow> Inl err
      | Inr (token, parts) \<Rightarrow>
          (case parts of
             [h, p, s] \<Rightarrow>
               (case DecodeSegment env s of
                  None \<Rightarrow> Inl ErrTokenMalformed
                | Some sig \<Rightarrow>
               (case keyFunc token of
                  Inl e \<Rightarrow> Inl (ErrTokenUnverifiable (Some e))
                | Inr key \<Rightarrow>
                    if \<not> Verify env (Method token) (h @ ''.'' @ p) sig key
                    then Inl ErrTokenSignatureInvalid
                    else (case Validate now (TClaims token) of
                            [] \<Rightarrow> Inr (token\<lparr>Signature := sig, Valid := True\<rparr>)
                          | e # es \<Rightarrow> Inl (ErrTokenInvalidClaims (e # es)))))
           | _ \<Rightarrow> Inl ErrTokenMalformed))"

section \<open>The authentication middleware\<close>

text \<open>\<^verbatim>\<open>var jwtKey = []byte("minha_chave_super_secreta")\<close> (main.go, line 25).\<close>

definition jwtKey :: string where
  "jwtKey = ''minha_chave_super_secreta''"

definition msg_missing :: string where
  "msg_missing = ''Cabe'' @ c_cedilla @ ''alho de autoriza'' @ c_cedilla @ a_tilde
     @ ''o n'' @ a_tilde @ ''o encontrado''"

definition msg_format :: string where
  "msg_format = ''Formato do token de autoriza'' @ c_cedilla @ a_tilde @ ''o inv''
     @ a_acute @ ''lido''"

definition msg_invalid :: string where
  "msg_invalid = ''Token inv'' @ a_acute @ ''lido''"

text \<open>
  The key function handed to the parser (main.go, lines 54 to 60): the key, unless the
  token's method is not of the HMAC type.
\<close>

definition keyFunc :: "Token \<Rightarrow> string + string" where
  "keyFunc token =
     (case Method token of
        SigningMethodHMAC h \<Rightarrow> Inr jwtKey
      | _ \<Rightarrow> Inl (''m'' @ e_acute @ ''todo de assinatura inesperado: ''
                 @ (case Header token ''alg'' of None \<Rightarrow> ''<nil>'' | Some a \<Rightarrow> a)))"

text \<open>
  The handler returned by \<^verbatim>\<open>AuthMiddleware()\<close> (main.go, lines 35 to 73). \<open>next\<close> is
  \<^verbatim>\<open>c.Next()\<close>, the rest of the handler chain; \<open>now\<close> is the clock read by the parser.
\<close>

definition AuthMiddleware :: "Codec \<Rightarrow> int \<Rightarrow> (Context \<Rightarrow> Context) \<Rightarrow> Context \<Rightarrow> Context" where
  "AuthMiddleware env now next c =
     (let authHeader = GetHeader c ''Authorization'' in
      if authHeader = [] then
        Abort (JSON StatusUnauthorized (H [(''error'', msg_missing)]) c)
      else
        let tokenString = TrimPrefix authHeader ''Bearer '' in
        if tokenString = authHeader then
          Abort (JSON StatusUnauthorized (H [(''error'', msg_format)]) c)
        else
          (case ParseWithClaims env now tokenString keyFunc of
             Inl err \<Rightarrow> Abort (JSON StatusUnauthorized (H [(''error'', msg_invalid)]) c)
           | Inr token \<Rightarrow>
               if \<not> Valid token then
                 Abort (JSON StatusUnauthorized (H [(''error'', msg_invalid)]) c)
               else next (Set_key ''username'' (Username (TClaims token)) c)))"

section \<open>The handler chain of the article route\<close>

datatype Handler = HAuthMiddleware | HGetArticleByID

text \<open>
  \<^verbatim>\<open>c.Next()\<close>: the remaining handlers run in order; a handler that aborts stops the
  chain, and the middleware runs the rest of the chain itself.
\<close>

fun Next :: "Codec \<Rightarrow> int \<Rightarrow> Handler list \<Rightarrow> Context \<Rightarrow> Context" where
  "Next env now [] c = c"
| "Next env now (HAuthMiddleware # hs) c = AuthMiddleware env now (\<lambda>c'. Next env now hs c') c"
| "Next env now (HGetArticleByID # hs) c =
     (let c' = GetArticleByID c in if aborted c' then c' else Next env now hs c')"

text \<open>
  A request to \<^verbatim>\<open>GET /api/v1/articles/:id\<close> as \<^verbatim>\<open>main\<close> routes it (lines 100 to 107):
  a fresh context, then the group's middleware, then the article handler. The logger and
  recovery handlers that \<^verbatim>\<open>main\<close> installs in front only wrap the chain; they touch none
  of the fields of \<open>Context\<close> and are left out.
\<close>

record Request =
  req_header :: "string \<rightharpoonup> string list"
  req_id :: string

definition new_context :: "Request \<Rightarrow> Context" where
  "new_context r = \<lparr>Request_Header = req_header r, Params = [(''id'', req_id r)],
     Keys = Map.empty, Writer = [], aborted = False\<rparr>"

definition serve :: "Codec \<Rightarrow> int \<Rightarrow> Request \<Rightarrow> Context" where
  "serve env now r = Next env now [HAuthMiddleware, HGetArticleByID] (new_context r)"

section \<open>The verifier's decision, in the specification's words\<close>

text \<open>
  The specification describes the verifier as a function from the header value to one of
  two terminal outcomes, \<open>Admitted\<close> with the identity or \<open>Rejected\<close> with one of
  three reasons, decided in three steps: presence, scheme, cryptographic validation. This
  is that description; the middleware above is compared with it.
\<close>

datatype Reason = MissingCredentials | MalformedCredentials | InvalidToken

datatype Outcome = Admitted string | Rejected Reason

definition spec_TokenVerifier :: "Codec \<Rightarrow> int \<Rightarrow> string \<Rightarrow> Outcome" where
  "spec_TokenVerifier env now header =
     (if header = [] then Rejected MissingCredentials
      else if \<not> HasPrefix header ''Bearer '' then Rejected MalformedCredentials
      else (case ParseWithClaims env now (TrimPrefix header ''Bearer '') keyFunc of
              Inl err \<Rightarrow> Rejected InvalidToken
            | Inr token \<Rightarrow> Admitted (Username (TClaims token))))"

text \<open>The message the middleware sends for each reason.\<close>

fun reason_message :: "Reason \<Rightarrow> string" where
  "reason_message MissingCredentials = msg_missing"
| "reason_message MalformedCredentials = msg_format"
| "reason_message InvalidToken = msg_invalid"

section \<open>A small codec for evaluating the definitions\<close>

text \<open>
  An instance of the parameter, used to run the definitions on concrete requests: segments
  are stored undecoded, the header segment is the algorithm name itself, the claims segment
  is looked up in a short table, and the keyed hash is the key followed by the message
  without its dots.
\<close>

definition plain_claims :: "string \<Rightarrow> int option \<Rightarrow> int option \<Rightarrow> Claims" where
  "plain_claims u e n = \<lparr>Username = u, Issuer = [], Subject = [], Audience = [],
     ExpiresAt = e, NotBefore = n, IssuedAt = None, ID_jti = []\<rparr>"

definition test_codec :: Codec where
  "test_codec = \<lparr>
     DecodeSegment = (\<lambda>s. if s = ''?'' then None else Some s),
     UnmarshalHeader = (\<lambda>b. if b = ''{}'' then Some Map.empty else Some [''alg'' \<mapsto> b]),
     UnmarshalClaims = (\<lambda>b.
       if b = ''alice'' then Some (plain_claims ''alice'' None None)
       else if b = ''bob+exp3600'' then Some (plain_claims ''bob'' (Some 3600) None)
       else if b = ''carol+nbf7200'' then Some (plain_claims ''carol'' None (Some 7200))
       else if b = ''dave+exp10'' then Some (plain_claims ''dave'' (Some 10) None)
       else None),
     HMAC = (\<lambda>h key msg. key @ ''#'' @ filter (\<lambda>x. x \<noteq> CHR ''.'') msg)\<rparr>"

text \<open>A request for article 1 carrying the given \<^verbatim>\<open>Authorization\<close> header value.\<close>

definition request_with :: "string \<Rightarrow> Request" where
  "request_with v = \<lparr>req_header = [''Authorization'' \<mapsto> [v]], req_id = ''1''\<rparr>"

section \<open>Auxiliary facts\<close>

lemma TrimPrefix_same: "pre \<noteq> [] \<Longrightarrow> (TrimPrefix s pre = s) = (\<not> HasPrefix s pre)"
proof -
  assume ne: "pre \<noteq> []"
  have "drop (length pre) s \<noteq> s" if "length pre \<le> length s"
  proof
    assume "drop (length pre) s = s"
    then have "length (drop (length pre) s) = length s" by simp
    with that ne show False by (cases pre) auto
  qed
  then show ?thesis by (auto simp: TrimPrefix_def HasPrefix_def)
qed

lemma Split_no_sep: "sep \<notin> set xs \<Longrightarrow> Split xs sep = [xs]"
  by (induction xs) auto

lemma Split_append: "sep \<notin> set xs \<Longrightarrow> Split (xs @ sep # ys) sep = xs # Split ys sep"
  by (induction xs) (auto split: list.splits)

lemma Split_three:
  "CHR ''.'' \<notin> set h \<Longrightarrow> CHR ''.'' \<notin> set p \<Longrightarrow> CHR ''.'' \<notin> set s \<Longrightarrow>
   Split (h @ ''.'' @ p @ ''.'' @ s) (CHR ''.'') = [h, p, s]"
  by (simp add: Split_append Split_no_sep)

lemma ParseWithClaims_Valid: "ParseWithClaims env now T kf = Inr token \<Longrightarrow> Valid token"
  by (auto simp: ParseWithClaims_def split: sum.splits prod.splits list.splits option.splits if_splits)

lemma AuthMiddleware_decision:
  "AuthMiddleware env now next c =
     (case spec_TokenVerifier env now (GetHeader c ''Authorization'') of
        Admitted u \<Rightarrow> next (Set_key ''username'' u c)
      | Rejected r \<Rightarrow> Abort (JSON StatusUnauthorized (H [(''error'', reason_message r)]) c))"
proof (cases "GetHeader c ''Authorization'' = []")
  case True
  then show ?thesis by (simp add: AuthMiddleware_def spec_TokenVerifier_def)
next
  case ne: False
  show ?thesis
  proof (cases "HasPrefix (GetHeader c ''Authorization'') ''Bearer ''")
    case False
    with ne show ?thesis
      by (simp add: AuthMiddleware_def spec_TokenVerifier_def TrimPrefix_same Let_def)
  next
    case True
    then have neq: "TrimPrefix (GetHeader c ''Authorization'') ''Bearer '' \<noteq> GetHeader c ''Authorization''"
      by (simp add: TrimPrefix_same)
    show ?thesis
    proof (cases "ParseWithClaims env now (TrimPrefix (GetHeader c ''Authorization'') ''Bearer '') keyFunc")
      case (Inl e)
      with ne True neq show ?thesis
        by (simp add: AuthMiddleware_def spec_TokenVerifier_def Let_def)
    next
      case (Inr token)
      with ne True neq ParseWithClaims_Valid[OF Inr] show ?thesis
        by (simp add: AuthMiddleware_def spec_TokenVerifier_def Let_def)
    qed
  qed
qed

lemma ParseUnverified_empty: "ParseUnverified env [] = Inl ErrTokenMalformed"
  by (simp add: ParseUnverified_def)

lemma ParseWithClaims_empty: "ParseWithClaims env now [] kf = Inl ErrTokenMalformed"
  by (simp add: ParseWithClaims_def ParseUnverified_empty)

lemma GetSigningMethod_HMAC:
  "GetSigningMethod a = Some (SigningMethodHMAC h) \<Longrightarrow> a = ''HS256'' \<or> a = ''HS384'' \<or> a = ''HS512''"
  by (simp add: GetSigningMethod_def split: if_splits)

lemma ParseUnverified_Inr:
  "ParseUnverified env T = Inr (token, parts) \<Longrightarrow>
   \<exists>h p s hb hdr a m pb cl. Split T (CHR ''.'') = [h, p, s] \<and> parts = [h, p, s] \<and>
     DecodeSegment env h = Some hb \<and> UnmarshalHeader env hb = Some hdr \<and>
     hdr ''alg'' = Some a \<and> GetSigningMethod a = Some m \<and>
     DecodeSegment env p = Some pb \<and> UnmarshalClaims env pb = Some cl \<and>
     token = \<lparr>Raw = T, Method = m, Header = hdr, TClaims = cl, Signature = [], Valid = False\<rparr>"
  by (auto simp: ParseUnverified_def split: list.splits option.splits)

lemma keyFunc_Inr: "keyFunc token = Inr k \<Longrightarrow> \<exists>h. Method token = SigningMethodHMAC h"
  by (auto simp: keyFunc_def split: SigningMethod.splits)

lemma ParseWithClaims_Inr:
  assumes "ParseWithClaims env now T keyFunc = Inr token"
  shows "\<exists>h p s hb hdr a hash pb cl.
     Split T (CHR ''.'') = [h, p, s] \<and> DecodeSegment env h = Some hb \<and>
     UnmarshalHeader env hb = Some hdr \<and> hdr ''alg'' = Some a \<and>
     GetSigningMethod a = Some (SigningMethodHMAC hash) \<and>
     DecodeSegment env p = Some pb \<and> UnmarshalClaims env pb = Some cl \<and>
     DecodeSegment env s = Some (HMAC env hash jwtKey (h @ ''.'' @ p)) \<and>
     Validate now cl = [] \<and> TClaims token = cl \<and> Valid token"
proof -
  from assms obtain tok parts where pu: "ParseUnverified env T = Inr (tok, parts)"
    by (auto simp: ParseWithClaims_def split: sum.splits)
  from ParseUnverified_Inr[OF pu] obtain h p s hb hdr a m pb cl where
    sp: "Split T (CHR ''.'') = [h, p, s]" "parts = [h, p, s]" and
    hd: "DecodeSegment env h = Some hb" "UnmarshalHeader env hb = Some hdr" "hdr ''alg'' = Some a"
      "GetSigningMethod a = Some m" and
    cl: "DecodeSegment env p = Some pb" "UnmarshalClaims env pb = Some cl" and
    tok: "tok = \<lparr>Raw = T, Method = m, Header = hdr, TClaims = cl, Signature = [], Valid = False\<rparr>"
    by blast
  from assms pu sp obtain sig k where
    sg: "DecodeSegment env s = Some sig" and kf: "keyFunc tok = Inr k" and
    vf: "Verify env (Method tok) (h @ ''.'' @ p) sig k" and
    vl: "Validate now (TClaims tok) = []" and tk: "token = tok\<lparr>Signature := sig, Valid := True\<rparr>"
    by (auto simp: ParseWithClaims_def split: option.splits sum.splits if_splits list.splits)
  from keyFunc_Inr[OF kf] obtain hash where m: "Method tok = SigningMethodHMAC hash" by blast
  with kf have k: "k = jwtKey" by (simp add: keyFunc_def)
  from vf m k have "sig = HMAC env hash jwtKey (h @ ''.'' @ p)" by (simp add: Verify_def)
  with sp hd cl sg vl tk m tok show ?thesis by auto
qed

lemma ParseWithClaims_good:
  assumes "Split T (CHR ''.'') = [h, p, s]" "DecodeSegment env h = Some hb"
     "UnmarshalHeader env hb = Some hdr" "hdr ''alg'' = Some a"
     "GetSigningMethod a = Some (SigningMethodHMAC hash)"
     "DecodeSegment env p = Some pb" "UnmarshalClaims env pb = Some cl"
     "DecodeSegment env s = Some (HMAC env hash jwtKey (h @ ''.'' @ p))"
     "Validate now cl = []"
  shows "ParseWithClaims env now T keyFunc =
     Inr \<lparr>Raw = T, Method = SigningMethodHMAC hash, Header = hdr, TClaims = cl,
          Signature = HMAC env hash jwtKey (h @ ''.'' @ p), Valid = True\<rparr>"
  using assms by (simp add: ParseWithClaims_def ParseUnverified_def keyFunc_def Verify_def)

lemma Validate_Nil:
  "(Validate now cl = []) =
     ((case ExpiresAt cl of None \<Rightarrow> True | Some e \<Rightarrow> now < e) \<and>
      (case NotBefore cl of None \<Rightarrow> True | Some n \<Rightarrow> n \<le> now))"
  by (auto simp: Validate_def split: option.splits)

lemma reject_eq:
  "Abort (JSON StatusUnauthorized (H [(''error'', m)]) c) =
     c\<lparr>Writer := Writer c @ [(401, H [(''error'', m)])], aborted := True\<rparr>"
  by (simp add: Abort_def JSON_def StatusUnauthorized_def)

lemma spec_Bearer:
  "spec_TokenVerifier env now (''Bearer '' @ T) =
     (case ParseWithClaims env now T keyFunc of
        Inl e \<Rightarrow> Rejected InvalidToken | Inr token \<Rightarrow> Admitted (Username (TClaims token)))"
  by (simp add: spec_TokenVerifier_def TrimPrefix_def HasPrefix_def)

lemma ParseWithClaims_header_alg:
  assumes "Split T (CHR ''.'') = h # rest" "DecodeSegment env h = Some hb"
    "UnmarshalHeader env hb = Some hdr" "hdr ''alg'' = Some a"
    "a \<notin> {''HS256'', ''HS384'', ''HS512''}"
  shows "\<exists>e. ParseWithClaims env now T keyFunc = Inl e"
proof (cases "ParseWithClaims env now T keyFunc")
  case (Inl e) then show ?thesis by simp
next
  case (Inr token)
  from ParseWithClaims_Inr[OF Inr] assms have False
    by (auto dest: GetSigningMethod_HMAC)
  then show ?thesis ..
qed

lemma AuthMiddleware_Bearer_Inl:
  assumes "GetHeader c ''Authorization'' = ''Bearer '' @ T"
    and "ParseWithClaims env now T keyFunc = Inl e"
  shows "AuthMiddleware env now next c =
     c\<lparr>Writer := Writer c @ [(401, H [(''error'', msg_invalid)])], aborted := True\<rparr>"
proof -
  have "spec_TokenVerifier env now (GetHeader c ''Authorization'') = Rejected InvalidToken"
    using spec_Bearer[of env now T] assms by simp
  then show ?thesis by (simp add: AuthMiddleware_decision reject_eq)
qed

lemma Keys_GetArticleByID: "Keys (GetArticleByID c) = Keys c"
  by (simp add: GetArticleByID_def JSON_def Let_def)

lemma serve_eq:
  "serve env now r = AuthMiddleware env now GetArticleByID (new_context r)"
proof -
  have eq: "Next env now [HGetArticleByID] = GetArticleByID"
    by (rule ext) (simp add: Let_def)
  show ?thesis unfolding serve_def Next.simps eq ..
qed

section \<open>The definitions evaluated on sample tokens\<close>

lemmas eval_defs = ParseWithClaims_def ParseUnverified_def test_codec_def keyFunc_def Verify_def
  Validate_def GetSigningMethod_def plain_claims_def jwtKey_def

lemma header_of_request: "GetHeader (new_context (request_with v)) ''Authorization'' = v"
  by (simp add: GetHeader_def new_context_def request_with_def)

lemma parse_forged:
  "ParseWithClaims test_codec 100 ''HS256.alice.forged'' keyFunc = Inl ErrTokenSignatureInvalid"
  by (simp add: eval_defs)

lemma parse_other_key:
  "ParseWithClaims test_codec 100 ''HS256.alice.outra_chave#HS256alice'' keyFunc =
     Inl ErrTokenSignatureInvalid"
  by (simp add: eval_defs)

lemma parse_none:
  "ParseWithClaims test_codec 100 ''none.alice.'' keyFunc =
     Inl (ErrTokenUnverifiable (Some (''m'' @ e_acute @ ''todo de assinatura inesperado: none'')))"
  by (simp add: eval_defs)

lemma parse_garbage:
  "ParseWithClaims test_codec 100 ''garbage'' keyFunc = Inl ErrTokenMalformed"
  by (simp add: eval_defs)

lemma parse_expired:
  "ParseWithClaims test_codec 100 ''HS256.dave+exp10.minha_chave_super_secreta#HS256dave+exp10''
     keyFunc = Inl (ErrTokenInvalidClaims [ErrTokenExpired])"
  by (simp add: eval_defs)

lemma parse_early:
  "ParseWithClaims test_codec 100
     ''HS256.carol+nbf7200.minha_chave_super_secreta#HS256carol+nbf7200'' keyFunc =
     Inl (ErrTokenInvalidClaims [ErrTokenNotValidYet])"
  by (simp add: eval_defs)

lemma spec_missing: "spec_TokenVerifier test_codec 100 [] = Rejected MissingCredentials"
  by (simp add: spec_TokenVerifier_def)

lemma spec_basic: "spec_TokenVerifier test_codec 100 ''Basic abc'' = Rejected MalformedCredentials"
  by (simp add: spec_TokenVerifier_def HasPrefix_def)

lemma spec_forged:
  "spec_TokenVerifier test_codec 100 ''Bearer HS256.alice.forged'' = Rejected InvalidToken"
  using spec_Bearer [of test_codec 100 "''HS256.alice.forged''"] by (simp add: parse_forged)

lemma spec_bob:
  "spec_TokenVerifier test_codec 100
     ''Bearer HS256.bob+exp3600.minha_chave_super_secreta#HS256bob+exp3600'' = Admitted ''bob''"
  using spec_Bearer [of test_codec 100 "''HS256.bob+exp3600.minha_chave_super_secreta#HS256bob+exp3600''"]
  by (simp add: eval_defs)

lemma header_of_request_id:
  "GetHeader (new_context ((request_with v)\<lparr>req_id := i\<rparr>)) ''Authorization'' = v"
  by (simp add: GetHeader_def new_context_def request_with_def)

section \<open>Properties\<close>

text \<open>
  C1, as the code has it. Let the header be \<open>''Bearer ''\<close> followed by a token of three
  segments whose header names an HMAC algorithm, whose signature segment decodes to the
  keyed hash of the first two segments under \<open>jwtKey\<close>, and whose claims carry the user
  name \<open>U\<close>, an expiry (if any) after the current instant and a not-before instant (if
  any) not after it. Then the verifier admits the request and the chain continues with
  \<open>U\<close> stored under the key \<open>username\<close>. A token that is signed and not expired but
  whose not-before instant lies ahead is rejected, as the evaluated request after the
  theorem shows.
\<close>

theorem valid_token_admitted:
  assumes "GetHeader c ''Authorization'' = ''Bearer '' @ T"
    and "Split T (CHR ''.'') = [h, p, s]"
    and "DecodeSegment env h = Some hb"
    and "UnmarshalHeader env hb = Some hdr"
    and "hdr ''alg'' = Some a"
    and "GetSigningMethod a = Some (SigningMethodHMAC hash)"
    and "DecodeSegment env p = Some pb"
    and "UnmarshalClaims env pb = Some cl"
    and "Username cl = U"
    and "DecodeSegment env s = Some (HMAC env hash jwtKey (h @ ''.'' @ p))"
    and "case ExpiresAt cl of None \<Rightarrow> True | Some e \<Rightarrow> now < e"
    and "case NotBefore cl of None \<Rightarrow> True | Some n \<Rightarrow> n \<le> now"
  shows "spec_TokenVerifier env now (GetHeader c ''Authorization'') = Admitted U \<and>
     AuthMiddleware env now next c = next (c\<lparr>Keys := (Keys c)(''username'' \<mapsto> U)\<rparr>)"
proof -
  from assms(11,12) have "Validate now cl = []" by (simp add: Validate_Nil)
  from ParseWithClaims_good[OF assms(2-8,10) this]
  have "spec_TokenVerifier env now (GetHeader c ''Authorization'') = Admitted U"
    using spec_Bearer[of env now T] assms(1,9) by simp
  then show ?thesis by (simp add: AuthMiddleware_decision Set_key_def)
qed

text \<open>
  The theorem at a token for \<open>bob\<close> that expires at 3600, served at the instant 100:
  the identity is \<open>bob\<close> and the article handler answers.
\<close>

theorem valid_token_admitted_witness:
  "Keys (serve test_codec 100 (request_with
      ''Bearer HS256.bob+exp3600.minha_chave_super_secreta#HS256bob+exp3600'')) ''username'' =
     Some ''bob'' \<and>
   Writer (serve test_codec 100 (request_with
      ''Bearer HS256.bob+exp3600.minha_chave_super_secreta#HS256bob+exp3600'')) =
     [(200, ArticleBody article_1)]"
  using valid_token_admitted [of
      "new_context (request_with ''Bearer HS256.bob+exp3600.minha_chave_super_secreta#HS256bob+exp3600'')"
      "''HS256.bob+exp3600.minha_chave_super_secreta#HS256bob+exp3600''"
      "''HS256''" "''bob+exp3600''" "''minha_chave_super_secreta#HS256bob+exp3600''"
      test_codec "''HS256''" "[''alg'' \<mapsto> ''HS256'']" "''HS256''" SHA256 "''bob+exp3600''"
      "plain_claims ''bob'' (Some 3600) None" "''bob''" 100 GetArticleByID]
  by (simp add: header_of_request serve_eq test_codec_def GetSigningMethod_def plain_claims_def
      jwtKey_def)
    (simp add: new_context_def request_with_def GetArticleByID_def JSON_def Param_def StatusOK_def)

text \<open>
  A token for \<open>carol\<close>, signed under \<open>jwtKey\<close> with \<open>HS256\<close>, without expiry, and
  not valid before 7200: at the instant 100 it is rejected and no identity is stored.
\<close>

theorem unexpired_token_before_nbf_rejected:
  "Split ''HS256.carol+nbf7200.minha_chave_super_secreta#HS256carol+nbf7200'' (CHR ''.'') =
     [''HS256'', ''carol+nbf7200'', ''minha_chave_super_secreta#HS256carol+nbf7200''] \<and>
   DecodeSegment test_codec ''HS256'' = Some ''HS256'' \<and>
   UnmarshalHeader test_codec ''HS256'' = Some [''alg'' \<mapsto> ''HS256''] \<and>
   GetSigningMethod ''HS256'' = Some (SigningMethodHMAC SHA256) \<and>
   DecodeSegment test_codec ''carol+nbf7200'' = Some ''carol+nbf7200'' \<and>
   UnmarshalClaims test_codec ''carol+nbf7200'' = Some (plain_claims ''carol'' None (Some 7200)) \<and>
   Username (plain_claims ''carol'' None (Some 7200)) = ''carol'' \<and>
   ExpiresAt (plain_claims ''carol'' None (Some 7200)) = None \<and>
   DecodeSegment test_codec ''minha_chave_super_secreta#HS256carol+nbf7200'' =
     Some (HMAC test_codec SHA256 jwtKey ''HS256.carol+nbf7200'') \<and>
   Keys (serve test_codec 100 (request_with
      ''Bearer HS256.carol+nbf7200.minha_chave_super_secreta#HS256carol+nbf7200'')) ''username'' = None \<and>
   Writer (serve test_codec 100 (request_with
      ''Bearer HS256.carol+nbf7200.minha_chave_super_secreta#HS256carol+nbf7200'')) =
     [(401, H [(''error'', msg_invalid)])]"
proof -
  have "spec_TokenVerifier test_codec 100
      ''Bearer HS256.carol+nbf7200.minha_chave_super_secreta#HS256carol+nbf7200'' = Rejected InvalidToken"
    using spec_Bearer [of test_codec 100 "''HS256.carol+nbf7200.minha_chave_super_secreta#HS256carol+nbf7200''"]
    by (simp add: parse_early)
  then have "serve test_codec 100 (request_with
      ''Bearer HS256.carol+nbf7200.minha_chave_super_secreta#HS256carol+nbf7200'') =
      (new_context (request_with ''Bearer HS256.carol+nbf7200.minha_chave_super_secreta#HS256carol+nbf7200''))
       \<lparr>Writer := [(401, H [(''error'', msg_invalid)])], aborted := True\<rparr>"
    by (simp add: serve_eq AuthMiddleware_decision header_of_request reject_eq) (simp add: new_context_def)
  then show ?thesis
    by (simp add: test_codec_def GetSigningMethod_def plain_claims_def jwtKey_def new_context_def)
qed

text \<open>
  C6. A request without an \<^verbatim>\<open>Authorization\<close> header is seen by the middleware as the
  empty header value and is rejected as \<open>MissingCredentials\<close>: status 401 with the
  missing-header message, and the chain aborted. The codec, the clock and the rest of the
  chain play no part, so the check precedes all scheme and cryptographic processing.
\<close>
theorem missing_header_rejected:
  "Request_Header c ''Authorization'' = None \<Longrightarrow>
   GetHeader c ''Authorization'' = [] \<and>
   spec_TokenVerifier env now (GetHeader c ''Authorization'') = Rejected MissingCredentials \<and>
   AuthMiddleware env now next c =
     c\<lparr>Writer := Writer c @ [(401, H [(''error'', msg_missing)])], aborted := True\<rparr>"
  by (simp add: AuthMiddleware_def GetHeader_def spec_TokenVerifier_def reject_eq)

text \<open>The theorem at a request that carries no header at all.\<close>

theorem missing_header_rejected_witness:
  "Request_Header (new_context \<lparr>req_header = Map.empty, req_id = ''1''\<rparr>) ''Authorization'' = None \<and>
   AuthMiddleware test_codec 0 id (new_context \<lparr>req_header = Map.empty, req_id = ''1''\<rparr>) =
     \<lparr>Request_Header = Map.empty, Params = [(''id'', ''1'')], Keys = Map.empty,
       Writer = [(401, H [(''error'', msg_missing)])], aborted = True\<rparr>"
  using missing_header_rejected
    [of "new_context \<lparr>req_header = Map.empty, req_id = ''1''\<rparr>" test_codec 0 id]
  by (simp add: new_context_def)

text \<open>
  C9. An absent \<^verbatim>\<open>Authorization\<close> header and one that is present with an empty first
  value cannot be told apart: both read as the empty string, and both requests end in the
  same \<open>MissingCredentials\<close> rejection.
\<close>
theorem absent_and_empty_header_alike:
  "GetHeader (c\<lparr>Request_Header := (Request_Header c)(''Authorization'' := None)\<rparr>) ''Authorization'' = [] \<and>
   GetHeader (c\<lparr>Request_Header := (Request_Header c)(''Authorization'' \<mapsto> [] # vs)\<rparr>) ''Authorization'' = [] \<and>
   AuthMiddleware env now next (c\<lparr>Request_Header := (Request_Header c)(''Authorization'' := None)\<rparr>) =
     c\<lparr>Request_Header := (Request_Header c)(''Authorization'' := None),
       Writer := Writer c @ [(401, H [(''error'', msg_missing)])], aborted := True\<rparr> \<and>
   AuthMiddleware env now next (c\<lparr>Request_Header := (Request_Header c)(''Authorization'' \<mapsto> [] # vs)\<rparr>) =
     c\<lparr>Request_Header := (Request_Header c)(''Authorization'' \<mapsto> [] # vs),
       Writer := Writer c @ [(401, H [(''error'', msg_missing)])], aborted := True\<rparr>"
  by (simp add: AuthMiddleware_def GetHeader_def reject_eq)

text \<open>
  C5, as the code has it. Every non-empty header value that does not start with
  \<open>''Bearer ''\<close> is rejected as \<open>MalformedCredentials\<close>: status 401 with the
  format message, and the chain aborted. The empty header value is excluded: the presence
  check comes first and answers it with \<open>MissingCredentials\<close>, as the evaluated request
  after the theorem shows.
\<close>
theorem header_without_prefix_rejected:
  "GetHeader c ''Authorization'' \<noteq> [] \<Longrightarrow>
   \<not> HasPrefix (GetHeader c ''Authorization'') ''Bearer '' \<Longrightarrow>
   spec_TokenVerifier env now (GetHeader c ''Authorization'') = Rejected MalformedCredentials \<and>
   AuthMiddleware env now next c =
     c\<lparr>Writer := Writer c @ [(401, H [(''error'', msg_format)])], aborted := True\<rparr>"
  by (simp add: AuthMiddleware_decision spec_TokenVerifier_def reject_eq)

text \<open>The theorem at the header value \<open>''Basic abc''\<close>.\<close>

theorem header_without_prefix_rejected_witness:
  "GetHeader (new_context (request_with ''Basic abc'')) ''Authorization'' \<noteq> [] \<and>
   \<not> HasPrefix (GetHeader (new_context (request_with ''Basic abc'')) ''Authorization'') ''Bearer '' \<and>
   Writer (AuthMiddleware test_codec 0 id (new_context (request_with ''Basic abc''))) =
     [(401, H [(''error'', msg_format)])] \<and>
   aborted (AuthMiddleware test_codec 0 id (new_context (request_with ''Basic abc'')))"
  using header_without_prefix_rejected [of "new_context (request_with ''Basic abc'')" test_codec 0 id]
  by (simp add: new_context_def request_with_def GetHeader_def HasPrefix_def)

text \<open>
  The empty header value does not start with \<open>''Bearer ''\<close>, and the request is
  answered with the missing-header message, not with the format message.
\<close>

theorem empty_header_not_malformed:
  "\<not> HasPrefix (GetHeader (new_context (request_with [])) ''Authorization'') ''Bearer '' \<and>
   Writer (AuthMiddleware test_codec 0 id (new_context (request_with []))) =
     [(401, H [(''error'', msg_missing)])] \<and>
   AuthMiddleware test_codec 0 id (new_context (request_with [])) \<noteq>
     (new_context (request_with []))\<lparr>Writer := [(401, H [(''error'', msg_format)])], aborted := True\<rparr>"
  by (simp add: AuthMiddleware_def new_context_def request_with_def GetHeader_def HasPrefix_def
      reject_eq msg_missing_def msg_format_def)

text \<open>
  C3. The header value \<open>''Bearer ''\<close> passes the scheme check with the empty token
  string; the parser refuses the empty string as malformed, and the request is rejected as
  \<open>InvalidToken\<close>, with the invalid-token message and not the format message.
\<close>
theorem bare_prefix_is_invalid_token:
  "GetHeader c ''Authorization'' = ''Bearer '' \<Longrightarrow>
   TrimPrefix (GetHeader c ''Authorization'') ''Bearer '' = [] \<and>
   ParseWithClaims env now [] keyFunc = Inl ErrTokenMalformed \<and>
   spec_TokenVerifier env now (GetHeader c ''Authorization'') = Rejected InvalidToken \<and>
   AuthMiddleware env now next c =
     c\<lparr>Writer := Writer c @ [(401, H [(''error'', msg_invalid)])], aborted := True\<rparr> \<and>
   msg_invalid \<noteq> msg_format"
  using spec_Bearer[of env now "[]"]
  by (simp add: AuthMiddleware_decision ParseWithClaims_empty reject_eq TrimPrefix_def HasPrefix_def
      msg_invalid_def msg_format_def)

text \<open>The theorem at a request whose header value is exactly \<open>''Bearer ''\<close>.\<close>

theorem bare_prefix_is_invalid_token_witness:
  "GetHeader (new_context (request_with ''Bearer '')) ''Authorization'' = ''Bearer '' \<and>
   Writer (AuthMiddleware test_codec 0 id (new_context (request_with ''Bearer ''))) =
     [(401, H [(''error'', msg_invalid)])]"
  using bare_prefix_is_invalid_token [of "new_context (request_with ''Bearer '')" test_codec 0 id]
  by (simp add: new_context_def request_with_def GetHeader_def)


text \<open>
  C10. The article handler has exactly two outcomes, decided by the path parameters of the
  request: when the first parameter named \<open>id\<close> is \<open>''1''\<close> it renders status 200
  with the fixed article (ID \<open>''1''\<close>, title \<open>''Aprendendo Go e Swagger''\<close>); for every
  other value, and when there is no such parameter, it renders status 404 with a JSON
  object holding an \<open>error\<close> member. Nothing else of the context changes. On the article
  route, every request that the verifier admits is answered in exactly this way, by the
  \<open>id\<close> of its path: one response, 200 for \<open>''1''\<close> and 404 otherwise.
\<close>

theorem GetArticleByID_outcomes:
  "GetArticleByID c =
     c\<lparr>Writer := Writer c @
        [if map_of (Params c) ''id'' = Some ''1'' then (200, ArticleBody article_1)
         else (404, H [(''error'', msg_not_found)])]\<rparr> \<and>
   ID article_1 = ''1'' \<and> Title article_1 = ''Aprendendo Go e Swagger'' \<and>
   (spec_TokenVerifier env now (GetHeader (new_context r) ''Authorization'') = Admitted u \<longrightarrow>
    serve env now r =
      \<lparr>Request_Header = req_header r, Params = [(''id'', req_id r)],
        Keys = [''username'' \<mapsto> u],
        Writer = [if req_id r = ''1'' then (200, ArticleBody article_1)
                  else (404, H [(''error'', msg_not_found)])],
        aborted = False\<rparr>)"
proof -
  have handler: "GetArticleByID c =
     c\<lparr>Writer := Writer c @
        [if map_of (Params c) ''id'' = Some ''1'' then (200, ArticleBody article_1)
         else (404, H [(''error'', msg_not_found)])]\<rparr>" for c
    by (simp add: GetArticleByID_def Param_def JSON_def StatusOK_def StatusNotFound_def
        split: option.splits)
  have route: "serve env now r =
      \<lparr>Request_Header = req_header r, Params = [(''id'', req_id r)],
        Keys = [''username'' \<mapsto> u],
        Writer = [if req_id r = ''1'' then (200, ArticleBody article_1)
                  else (404, H [(''error'', msg_not_found)])],
        aborted = False\<rparr>"
    if "spec_TokenVerifier env now (GetHeader (new_context r) ''Authorization'') = Admitted u"
    using that by (simp add: serve_eq AuthMiddleware_decision handler Set_key_def new_context_def)
  from handler route show ?thesis by (simp add: article_1_def)
qed

text \<open>
  The theorem at three admitted requests: for the path \<open>id\<close> \<open>''1''\<close> the answer is the
  article, for \<open>''2''\<close> and for the empty \<open>id\<close> it is the 404.
\<close>

theorem GetArticleByID_outcomes_witness:
  "Writer (serve test_codec 100 (request_with
      ''Bearer HS256.bob+exp3600.minha_chave_super_secreta#HS256bob+exp3600'')) =
     [(200, ArticleBody article_1)] \<and>
   Writer (serve test_codec 100 ((request_with
      ''Bearer HS256.bob+exp3600.minha_chave_super_secreta#HS256bob+exp3600'')\<lparr>req_id := ''2''\<rparr>)) =
     [(404, H [(''error'', msg_not_found)])] \<and>
   Writer (serve test_codec 100 ((request_with
      ''Bearer HS256.bob+exp3600.minha_chave_super_secreta#HS256bob+exp3600'')\<lparr>req_id := []\<rparr>)) =
     [(404, H [(''error'', msg_not_found)])]"
  using GetArticleByID_outcomes [of _ test_codec 100
      "request_with ''Bearer HS256.bob+exp3600.minha_chave_super_secreta#HS256bob+exp3600''" "''bob''"]
    GetArticleByID_outcomes [of _ test_codec 100
      "(request_with ''Bearer HS256.bob+exp3600.minha_chave_super_secreta#HS256bob+exp3600'')\<lparr>req_id := ''2''\<rparr>" "''bob''"]
    GetArticleByID_outcomes [of _ test_codec 100
      "(request_with ''Bearer HS256.bob+exp3600.minha_chave_super_secreta#HS256bob+exp3600'')\<lparr>req_id := []\<rparr>" "''bob''"]
    spec_bob
  by (simp add: header_of_request header_of_request_id) (simp add: request_with_def)

text \<open>
  C2. A bearer token whose header segment names a signing algorithm other than
  \<open>HS256\<close>, \<open>HS384\<close> and \<open>HS512\<close> (among them \<open>none\<close> and every asymmetric
  algorithm) is rejected as \<open>InvalidToken\<close>, whatever its claims and signature segments
  hold: the registry does not know the name, or the key function refuses the method.
\<close>

theorem other_algorithm_rejected:
  assumes "GetHeader c ''Authorization'' = ''Bearer '' @ T"
    and "Split T (CHR ''.'') = h # rest"
    and "DecodeSegment env h = Some hb"
    and "UnmarshalHeader env hb = Some hdr"
    and "hdr ''alg'' = Some a"
    and "a \<notin> {''HS256'', ''HS384'', ''HS512''}"
  shows "spec_TokenVerifier env now (GetHeader c ''Authorization'') = Rejected InvalidToken \<and>
     AuthMiddleware env now next c =
       c\<lparr>Writer := Writer c @ [(401, H [(''error'', msg_invalid)])], aborted := True\<rparr>"
proof -
  from ParseWithClaims_header_alg[OF assms(2-6)] obtain e where
    e: "ParseWithClaims env now T keyFunc = Inl e" by blast
  have "spec_TokenVerifier env now (GetHeader c ''Authorization'') = Rejected InvalidToken"
    using spec_Bearer[of env now T] assms(1) e by simp
  with AuthMiddleware_Bearer_Inl[OF assms(1) e] show ?thesis by simp
qed

text \<open>The theorem at a token that names \<open>none\<close> and at one that names \<open>RS256\<close>.\<close>

theorem other_algorithm_rejected_witness:
  "Writer (AuthMiddleware test_codec 0 id (new_context (request_with ''Bearer none.alice.''))) =
     [(401, H [(''error'', msg_invalid)])] \<and>
   Writer (AuthMiddleware test_codec 0 id (new_context (request_with
       ''Bearer RS256.alice.minha_chave_super_secreta#RS256alice''))) =
     [(401, H [(''error'', msg_invalid)])]"
  using other_algorithm_rejected [of "new_context (request_with ''Bearer none.alice.'')"
      "''none.alice.''" "''none''" "[''alice'', [] ]" test_codec "''none''" "[''alg'' \<mapsto> ''none'']" "''none''" 0 id]
    other_algorithm_rejected [of "new_context (request_with
       ''Bearer RS256.alice.minha_chave_super_secreta#RS256alice'')"
      "''RS256.alice.minha_chave_super_secreta#RS256alice''" "''RS256''"
      "[''alice'', ''minha_chave_super_secreta#RS256alice'']" test_codec "''RS256''"
      "[''alg'' \<mapsto> ''RS256'']" "''RS256''" 0 id]
  by (simp add: new_context_def request_with_def GetHeader_def test_codec_def)

text \<open>
  C7. Whatever error the parser reports for a bearer token (malformed structure,
  unverifiable method, invalid signature, expired or not yet valid claims), the middleware
  gives the one \<open>InvalidToken\<close> answer: status 401 with the same generic message. The
  error value does not reach the response.
\<close>
theorem validation_failures_coalesce:
  assumes "GetHeader c ''Authorization'' = ''Bearer '' @ T"
    and "ParseWithClaims env now T keyFunc = Inl e"
  shows "spec_TokenVerifier env now (GetHeader c ''Authorization'') = Rejected InvalidToken \<and>
     AuthMiddleware env now next c =
       c\<lparr>Writer := Writer c @ [(401, H [(''error'', msg_invalid)])], aborted := True\<rparr>"
proof -
  have "spec_TokenVerifier env now (GetHeader c ''Authorization'') = Rejected InvalidToken"
    using spec_Bearer[of env now T] assms by simp
  with AuthMiddleware_Bearer_Inl[OF assms] show ?thesis by simp
qed

text \<open>
  The theorem at six failing tokens, one for each kind of failure: a forged signature, a
  signature under another key, the algorithm \<open>none\<close>, a string that is no token, an
  expired token and a token not yet valid. All six responses are the same.
\<close>

theorem validation_failures_coalesce_witness:
  "(let respond = (\<lambda>T. Writer (AuthMiddleware test_codec 100 id
        (new_context (request_with (''Bearer '' @ T)))))
    in respond ''HS256.alice.forged'' = [(401, H [(''error'', msg_invalid)])] \<and>
       respond ''HS256.alice.outra_chave#HS256alice'' = [(401, H [(''error'', msg_invalid)])] \<and>
       respond ''none.alice.'' = [(401, H [(''error'', msg_invalid)])] \<and>
       respond ''garbage'' = [(401, H [(''error'', msg_invalid)])] \<and>
       respond ''HS256.dave+exp10.minha_chave_super_secreta#HS256dave+exp10'' =
         [(401, H [(''error'', msg_invalid)])] \<and>
       respond ''HS256.carol+nbf7200.minha_chave_super_secreta#HS256carol+nbf7200'' =
         [(401, H [(''error'', msg_invalid)])])"
  using validation_failures_coalesce [OF header_of_request parse_forged, of id]
    validation_failures_coalesce [OF header_of_request parse_other_key, of id]
    validation_failures_coalesce [OF header_of_request parse_none, of id]
    validation_failures_coalesce [OF header_of_request parse_garbage, of id]
    validation_failures_coalesce [OF header_of_request parse_expired, of id]
    validation_failures_coalesce [OF header_of_request parse_early, of id]
  by (simp add: new_context_def)

text \<open>
  C8. When verification fails, for any of the three reasons, the middleware ends the request
  at once: it renders status 401 with a JSON object holding the \<open>error\<close> message of
  that reason, and aborts. The result does not depend on the rest of the chain, neither as
  the continuation \<open>next\<close> nor as the list of handlers that follow: the article handler
  is not run.
\<close>
theorem rejection_ends_request:
  assumes "spec_TokenVerifier env now (GetHeader c ''Authorization'') = Rejected r"
  shows "AuthMiddleware env now next c =
       c\<lparr>Writer := Writer c @ [(401, H [(''error'', reason_message r)])], aborted := True\<rparr> \<and>
     Next env now (HAuthMiddleware # hs) c =
       c\<lparr>Writer := Writer c @ [(401, H [(''error'', reason_message r)])], aborted := True\<rparr>"
  using assms by (simp add: AuthMiddleware_decision reject_eq)

text \<open>
  The theorem on the article route, at one request for each reason: the only response is
  the 401, and nothing else of the fresh context has changed.
\<close>

theorem rejection_ends_request_witness:
  "serve test_codec 100 (request_with []) =
     (new_context (request_with []))
       \<lparr>Writer := [(401, H [(''error'', msg_missing)])], aborted := True\<rparr> \<and>
   serve test_codec 100 (request_with ''Basic abc'') =
     (new_context (request_with ''Basic abc''))
       \<lparr>Writer := [(401, H [(''error'', msg_format)])], aborted := True\<rparr> \<and>
   serve test_codec 100 (request_with ''Bearer HS256.alice.forged'') =
     (new_context (request_with ''Bearer HS256.alice.forged''))
       \<lparr>Writer := [(401, H [(''error'', msg_invalid)])], aborted := True\<rparr>"
  using rejection_ends_request [of test_codec 100 "new_context (request_with [])"
      MissingCredentials id "[HGetArticleByID]"]
    rejection_ends_request [of test_codec 100 "new_context (request_with ''Basic abc'')"
      MalformedCredentials id "[HGetArticleByID]"]
    rejection_ends_request [of test_codec 100 "new_context (request_with ''Bearer HS256.alice.forged'')"
      InvalidToken id "[HGetArticleByID]"]
    spec_missing spec_basic spec_forged
  by (simp add: header_of_request serve_def) (simp add: new_context_def)

text \<open>
  C4. After a request to the article route has been served, its context holds an identity
  under the key \<open>username\<close> exactly when the verifier admitted the request, and the
  identity is the admitted one; a rejected request, for whichever reason, leaves no
  identity and an aborted chain.
\<close>
theorem identity_iff_verified:
  "Keys (serve env now r) ''username'' =
     (case spec_TokenVerifier env now (GetHeader (new_context r) ''Authorization'') of
        Admitted u \<Rightarrow> Some u | Rejected x \<Rightarrow> None) \<and>
   (Keys (serve env now r) ''username'' \<noteq> None) =
     (\<exists>u. spec_TokenVerifier env now (GetHeader (new_context r) ''Authorization'') = Admitted u) \<and>
   aborted (serve env now r) =
     (\<exists>x. spec_TokenVerifier env now (GetHeader (new_context r) ''Authorization'') = Rejected x)"
proof (cases "spec_TokenVerifier env now (GetHeader (new_context r) ''Authorization'')")
  case (Admitted u)
  then show ?thesis
    by (simp add: serve_eq AuthMiddleware_decision Keys_GetArticleByID Set_key_def
        GetArticleByID_def JSON_def new_context_def Let_def)
next
  case (Rejected x)
  then show ?thesis
    by (simp add: serve_eq AuthMiddleware_decision reject_eq new_context_def)
qed

end
